theory Spec2Isabelle
  imports Complex_Main
begin

section \<open>CoalZero: the emissions, sinks and simulation calculators\<close>

text \<open>
  The calculation core of CoalZero is three Python modules of pure arithmetic
  (\<^verbatim>\<open>utils/emissions.py\<close>, \<^verbatim>\<open>utils/sinks.py\<close>, \<^verbatim>\<open>utils/simulations.py\<close>)
  over the constants of \<^verbatim>\<open>utils/emission_factors.py\<close>, and the two calculation
  sections of \<^verbatim>\<open>app.py\<close> that compose them.

  Numbers. The specification's data model takes every quantity to be a real number,
  and the embedding does the same: a Python \<^verbatim>\<open>float\<close> is a HOL \<open>real\<close>, so
  \<open>+\<close>, \<open>-\<close>, \<open>*\<close> and \<open>/\<close> are exact. Rounding to binary64, overflow to infinity and
  NaN are outside the model. Arguments that the docstrings declare as \<^verbatim>\<open>int\<close> (worker
  and tree counts) are HOL \<open>int\<close>s.

  Failures. A Python call either returns a value or raises. Each function is embedded
  with the result type \<open>error + 'a\<close>: \<open>Inr v\<close> is a return of \<open>v\<close>, \<open>Inl e\<close> is the
  exception \<open>e\<close> leaving the function.
\<close>

subsection \<open>Results and the two Python operations that can raise\<close>

text \<open>
  \<open>ZeroDivisionError\<close> and \<open>KeyError\<close> are the exceptions that the operators used by
  the source (\<^verbatim>\<open>/\<close> and \<^verbatim>\<open>d[k]\<close>) can raise on numbers and dictionaries.
  \<open>InvalidInput\<close> is the failure that the specification names; no statement of the
  source raises it.
\<close>

datatype error = InvalidInput | ZeroDivisionError | KeyError

text \<open>Sequencing: an exception raised by the first computation leaves the caller too.\<close>

definition and_then :: "error + 'a \<Rightarrow> ('a \<Rightarrow> error + 'b) \<Rightarrow> error + 'b" where
  "and_then r f = (case r of Inl e \<Rightarrow> Inl e | Inr v \<Rightarrow> f v)"

text \<open>Python's \<^verbatim>\<open>a / b\<close> on numbers.\<close>

definition truediv :: "real \<Rightarrow> real \<Rightarrow> error + real" where
  "truediv a b = (if b = 0 then Inl ZeroDivisionError else Inr (a / b))"

text \<open>Python's \<^verbatim>\<open>d[k]\<close> on a dictionary with string keys.\<close>

definition getitem :: "(string \<rightharpoonup> 'v) \<Rightarrow> string \<Rightarrow> error + 'v" where
  "getitem d k = (case d k of None \<Rightarrow> Inl KeyError | Some v \<Rightarrow> Inr v)"

subsection \<open>\<^verbatim>\<open>utils/emission_factors.py\<close>\<close>

definition DIESEL_EMISSION_FACTOR :: real where
  "DIESEL_EMISSION_FACTOR = 2.68"

definition ELECTRICITY_EMISSION_FACTOR :: real where
  "ELECTRICITY_EMISSION_FACTOR = 0.82"

definition COAL_EXCAVATION_FACTOR :: real where
  "COAL_EXCAVATION_FACTOR = 0.15"

definition TRANSPORTATION_FACTOR :: real where
  "TRANSPORTATION_FACTOR = 0.062"

definition ABSORPTION_PER_HECTARE :: real where
  "ABSORPTION_PER_HECTARE = 10000"

definition ABSORPTION_PER_TREE :: real where
  "ABSORPTION_PER_TREE = 22"

definition RENEWABLE_EMISSION_FACTOR :: real where
  "RENEWABLE_EMISSION_FACTOR = 0.02"

definition CARBON_CREDIT_PRICE :: real where
  "CARBON_CREDIT_PRICE = 15"

definition KG_TO_TONNES :: real where
  "KG_TO_TONNES = 1000"

definition HECTARE_TO_ACRE :: real where
  "HECTARE_TO_ACRE = 2.47"

subsection \<open>\<^verbatim>\<open>utils/emissions.py\<close>\<close>

definition diesel_emissions :: "real \<Rightarrow> error + real" where
  "diesel_emissions litres = Inr (litres * DIESEL_EMISSION_FACTOR)"

definition electricity_emissions :: "real \<Rightarrow> error + real" where
  "electricity_emissions kwh = Inr (kwh * ELECTRICITY_EMISSION_FACTOR)"

definition excavation_emissions :: "real \<Rightarrow> error + real" where
  "excavation_emissions coal_tonnes = Inr (coal_tonnes * COAL_EXCAVATION_FACTOR)"

definition transportation_emissions :: "real \<Rightarrow> real \<Rightarrow> error + real" where
  "transportation_emissions coal_tonnes distance_km =
     Inr (coal_tonnes * distance_km * TRANSPORTATION_FACTOR)"

definition total_emissions :: "real \<Rightarrow> real \<Rightarrow> real \<Rightarrow> real \<Rightarrow> error + real" where
  "total_emissions diesel_em electricity_em excavation_em transport_em =
     Inr (diesel_em + electricity_em + excavation_em + transport_em)"

definition per_capita_emissions :: "real \<Rightarrow> int \<Rightarrow> error + real" where
  "per_capita_emissions total_em workers =
     (if workers = 0 then Inr 0 else truediv total_em (of_int workers))"

definition emissions_in_tonnes :: "real \<Rightarrow> error + real" where
  "emissions_in_tonnes emissions_kg = truediv emissions_kg KG_TO_TONNES"

subsection \<open>\<^verbatim>\<open>utils/sinks.py\<close>\<close>

definition carbon_absorption_from_area :: "real \<Rightarrow> error + real" where
  "carbon_absorption_from_area area_hectares = Inr (area_hectares * ABSORPTION_PER_HECTARE)"

definition carbon_absorption_from_trees :: "int \<Rightarrow> error + real" where
  "carbon_absorption_from_trees num_trees = Inr (of_int num_trees * ABSORPTION_PER_TREE)"

definition total_absorption :: "real \<Rightarrow> int \<Rightarrow> error + real" where
  "total_absorption area_hectares num_trees =
     and_then (carbon_absorption_from_area area_hectares) (\<lambda>area_absorption.
     and_then (carbon_absorption_from_trees num_trees) (\<lambda>tree_absorption.
     Inr (area_absorption + tree_absorption)))"

definition absorption_in_tonnes :: "real \<Rightarrow> error + real" where
  "absorption_in_tonnes absorption_kg = truediv absorption_kg KG_TO_TONNES"

definition land_required_for_neutrality :: "real \<Rightarrow> error + real" where
  "land_required_for_neutrality emission_gap_kg =
     (if emission_gap_kg \<le> 0 then Inr 0
      else truediv emission_gap_kg ABSORPTION_PER_HECTARE)"

subsection \<open>\<^verbatim>\<open>utils/simulations.py\<close>\<close>

text \<open>
  The first parameter of \<^verbatim>\<open>simulate_electrification\<close> is called
  \<^verbatim>\<open>diesel_emissions\<close> in the source; it is \<open>diesel_kg\<close> here, the name being taken
  by the function above.
\<close>

definition simulate_electrification :: "real \<Rightarrow> real \<Rightarrow> error + real" where
  "simulate_electrification diesel_kg electrification_percent =
     and_then (truediv (100 - electrification_percent) 100) (\<lambda>reduction_factor.
     Inr (diesel_kg * reduction_factor))"

definition simulate_renewable_energy :: "real \<Rightarrow> real \<Rightarrow> error + (string \<rightharpoonup> real)" where
  "simulate_renewable_energy electricity_kwh renewable_percent =
     and_then (truediv (100 - renewable_percent) 100) (\<lambda>grid_percent.
     and_then (truediv renewable_percent 100) (\<lambda>renewable_fraction.
     let grid_emissions = electricity_kwh * grid_percent * ELECTRICITY_EMISSION_FACTOR;
         renewable_emissions = electricity_kwh * renewable_fraction * RENEWABLE_EMISSION_FACTOR;
         total_new_emissions = grid_emissions + renewable_emissions
     in Inr [''total'' \<mapsto> total_new_emissions,
             ''grid'' \<mapsto> grid_emissions,
             ''renewable'' \<mapsto> renewable_emissions]))"

definition simulate_afforestation :: "real \<Rightarrow> real \<Rightarrow> int \<Rightarrow> error + real" where
  "simulate_afforestation current_absorption added_area_hectares added_trees =
     and_then (carbon_absorption_from_area added_area_hectares) (\<lambda>new_area_absorption.
     and_then (carbon_absorption_from_trees added_trees) (\<lambda>new_tree_absorption.
     Inr (current_absorption + new_area_absorption + new_tree_absorption)))"

definition calculate_carbon_credits :: "real \<Rightarrow> error + real" where
  "calculate_carbon_credits emission_gap_tonnes =
     (if emission_gap_tonnes \<le> 0 then Inr 0
      else Inr (emission_gap_tonnes * CARBON_CREDIT_PRICE))"

definition combined_simulation ::
  "real \<Rightarrow> real \<Rightarrow> real \<Rightarrow> real \<Rightarrow> real \<Rightarrow> real \<Rightarrow> int \<Rightarrow> error + (string \<rightharpoonup> real)" where
  "combined_simulation diesel_em electricity_kwh current_absorption
                       electrification_pct renewable_pct added_area added_trees =
     and_then (simulate_electrification diesel_em electrification_pct) (\<lambda>new_diesel_em.
     and_then (simulate_renewable_energy electricity_kwh renewable_pct) (\<lambda>new_elec_result.
     and_then (simulate_afforestation current_absorption added_area added_trees) (\<lambda>new_absorption.
     and_then (getitem new_elec_result ''total'') (\<lambda>new_elec_total.
     Inr [''diesel_emissions'' \<mapsto> new_diesel_em,
          ''electricity_emissions'' \<mapsto> new_elec_total,
          ''total_absorption'' \<mapsto> new_absorption]))))"

subsection \<open>The calculation sections of \<^verbatim>\<open>app.py\<close>\<close>

text \<open>
  \<^verbatim>\<open>app.py\<close> is a script: it reads the operational data from the sidebar widgets,
  computes the current state (lines 190 to 211), reads the simulation controls and
  computes the simulated state (lines 348 to 363). The widgets' values are gathered in a
  record, the variables that each section assigns in another, and each section is a
  function from the first to the second. The bound names are those of the script.
\<close>

record operational_inputs =
  diesel_litres :: real
  electricity_kwh :: real
  coal_extracted :: real
  transport_distance :: real
  num_workers :: int
  plantation_area :: real
  num_trees :: int

record current_state =
  diesel_em :: real
  electricity_em :: real
  excavation_em :: real
  transport_em :: real
  total_em :: real
  per_capita_em :: real
  total_absorption_kg :: real
  total_em_tonnes :: real
  total_absorption_tonnes :: real
  emission_gap_kg :: real
  emission_gap_tonnes :: real
  land_needed :: real

definition current_calculations :: "operational_inputs \<Rightarrow> error + current_state" where
  "current_calculations inp =
     and_then (diesel_emissions (diesel_litres inp)) (\<lambda>diesel_em.
     and_then (electricity_emissions (electricity_kwh inp)) (\<lambda>electricity_em.
     and_then (excavation_emissions (coal_extracted inp)) (\<lambda>excavation_em.
     and_then (transportation_emissions (coal_extracted inp) (transport_distance inp)) (\<lambda>transport_em.
     and_then (total_emissions diesel_em electricity_em excavation_em transport_em) (\<lambda>total_em.
     and_then (per_capita_emissions total_em (num_workers inp)) (\<lambda>per_capita_em.
     and_then (total_absorption (plantation_area inp) (num_trees inp)) (\<lambda>total_absorption_kg.
     and_then (emissions_in_tonnes total_em) (\<lambda>total_em_tonnes.
     and_then (absorption_in_tonnes total_absorption_kg) (\<lambda>total_absorption_tonnes.
     let emission_gap_kg = total_em - total_absorption_kg in
     and_then (truediv emission_gap_kg 1000) (\<lambda>emission_gap_tonnes.
     and_then (land_required_for_neutrality emission_gap_kg) (\<lambda>land_needed.
     Inr \<lparr>diesel_em = diesel_em, electricity_em = electricity_em,
          excavation_em = excavation_em, transport_em = transport_em,
          total_em = total_em, per_capita_em = per_capita_em,
          total_absorption_kg = total_absorption_kg,
          total_em_tonnes = total_em_tonnes,
          total_absorption_tonnes = total_absorption_tonnes,
          emission_gap_kg = emission_gap_kg,
          emission_gap_tonnes = emission_gap_tonnes,
          land_needed = land_needed\<rparr>)))))))))))"

record simulation_controls =
  electrification_pct :: real
  renewable_pct :: real
  added_plantation :: real
  added_trees_sim :: int

record simulated_state =
  new_diesel_em :: real
  new_electricity_em :: real
  new_total_em :: real
  new_absorption :: real
  new_total_em_tonnes :: real
  new_absorption_tonnes :: real
  new_gap_tonnes :: real

definition simulated_calculations ::
  "operational_inputs \<Rightarrow> current_state \<Rightarrow> simulation_controls \<Rightarrow> error + simulated_state" where
  "simulated_calculations inp cur ctl =
     and_then (combined_simulation (diesel_em cur) (electricity_kwh inp) (total_absorption_kg cur)
                 (electrification_pct ctl) (renewable_pct ctl)
                 (added_plantation ctl) (added_trees_sim ctl)) (\<lambda>sim_result.
     and_then (getitem sim_result ''diesel_emissions'') (\<lambda>new_diesel_em.
     and_then (getitem sim_result ''electricity_emissions'') (\<lambda>new_electricity_em.
     let new_total_em = new_diesel_em + new_electricity_em + excavation_em cur + transport_em cur in
     and_then (getitem sim_result ''total_absorption'') (\<lambda>new_absorption.
     and_then (truediv new_total_em 1000) (\<lambda>new_total_em_tonnes.
     and_then (truediv new_absorption 1000) (\<lambda>new_absorption_tonnes.
     and_then (truediv (new_total_em - new_absorption) 1000) (\<lambda>new_gap_tonnes.
     Inr \<lparr>new_diesel_em = new_diesel_em, new_electricity_em = new_electricity_em,
          new_total_em = new_total_em, new_absorption = new_absorption,
          new_total_em_tonnes = new_total_em_tonnes,
          new_absorption_tonnes = new_absorption_tonnes,
          new_gap_tonnes = new_gap_tonnes\<rparr>)))))))"


subsection \<open>The two scenarios of the specification\<close>

text \<open>
  Scenario 1 is the default value of every sidebar widget; scenario 2 applies the
  default value of every simulation slider to it.
\<close>

definition scenario_1 :: operational_inputs where
  "scenario_1 = \<lparr>diesel_litres = 50000, electricity_kwh = 500000, coal_extracted = 100000,
     transport_distance = 50, num_workers = 500, plantation_area = 10, num_trees = 1000\<rparr>"

definition controls_2 :: simulation_controls where
  "controls_2 = \<lparr>electrification_pct = 30, renewable_pct = 50,
     added_plantation = 20, added_trees_sim = 2000\<rparr>"

section \<open>Basic facts\<close>

lemmas emission_factors =
  DIESEL_EMISSION_FACTOR_def ELECTRICITY_EMISSION_FACTOR_def COAL_EXCAVATION_FACTOR_def
  TRANSPORTATION_FACTOR_def ABSORPTION_PER_HECTARE_def ABSORPTION_PER_TREE_def
  RENEWABLE_EMISSION_FACTOR_def CARBON_CREDIT_PRICE_def KG_TO_TONNES_def

lemma and_then_Inr [simp]: "and_then (Inr v) f = f v"
  by (simp add: and_then_def)

lemma and_then_Inl [simp]: "and_then (Inl e) f = Inl e"
  by (simp add: and_then_def)

text \<open>Closed forms of the functions that divide: the divisors are non-zero constants.\<close>

lemma land_required_value:
  "land_required_for_neutrality gap = Inr (max 0 gap / 10000)"
  by (simp add: land_required_for_neutrality_def truediv_def emission_factors max_def)

lemma simulate_electrification_value:
  "simulate_electrification d pct = Inr (d * (100 - pct) / 100)"
  by (simp add: simulate_electrification_def truediv_def)

lemma simulate_renewable_energy_value:
  "simulate_renewable_energy kwh pct =
     Inr [''total'' \<mapsto> kwh * ((100 - pct) / 100) * 0.82 + kwh * (pct / 100) * 0.02,
          ''grid'' \<mapsto> kwh * ((100 - pct) / 100) * 0.82,
          ''renewable'' \<mapsto> kwh * (pct / 100) * 0.02]"
  by (simp add: simulate_renewable_energy_def truediv_def emission_factors Let_def)


text \<open>The current state of scenario 1, every variable of the section.\<close>

lemma scenario_1_current:
  "current_calculations scenario_1 =
     Inr \<lparr>diesel_em = 134000, electricity_em = 410000, excavation_em = 15000,
          transport_em = 310000, total_em = 869000, per_capita_em = 1738,
          total_absorption_kg = 122000, total_em_tonnes = 869,
          total_absorption_tonnes = 122, emission_gap_kg = 747000,
          emission_gap_tonnes = 747, land_needed = 74.7\<rparr>"
  by (simp add: current_calculations_def scenario_1_def diesel_emissions_def
      electricity_emissions_def excavation_emissions_def transportation_emissions_def
      total_emissions_def per_capita_emissions_def total_absorption_def
      carbon_absorption_from_area_def carbon_absorption_from_trees_def
      emissions_in_tonnes_def absorption_in_tonnes_def land_required_value
      truediv_def emission_factors Let_def)

lemma combined_simulation_2:
  "combined_simulation 134000 500000 122000 30 50 20 2000 =
     Inr [''diesel_emissions'' \<mapsto> 93800,
          ''electricity_emissions'' \<mapsto> 210000,
          ''total_absorption'' \<mapsto> 366000]"
  by (simp add: combined_simulation_def simulate_electrification_value
      simulate_renewable_energy_value simulate_afforestation_def
      carbon_absorption_from_area_def carbon_absorption_from_trees_def
      getitem_def emission_factors)

lemma scenario_2_simulated:
  "and_then (current_calculations scenario_1)
     (\<lambda>cur. simulated_calculations scenario_1 cur controls_2) =
     Inr \<lparr>new_diesel_em = 93800, new_electricity_em = 210000,
          new_total_em = 628800, new_absorption = 366000,
          new_total_em_tonnes = 628.8, new_absorption_tonnes = 366,
          new_gap_tonnes = 262.8\<rparr>"
proof -
  have "simulated_calculations scenario_1
          \<lparr>diesel_em = 134000, electricity_em = 410000, excavation_em = 15000,
           transport_em = 310000, total_em = 869000, per_capita_em = 1738,
           total_absorption_kg = 122000, total_em_tonnes = 869,
           total_absorption_tonnes = 122, emission_gap_kg = 747000,
           emission_gap_tonnes = 747, land_needed = 74.7\<rparr> controls_2 =
        Inr \<lparr>new_diesel_em = 93800, new_electricity_em = 210000,
             new_total_em = 628800, new_absorption = 366000,
             new_total_em_tonnes = 628.8, new_absorption_tonnes = 366,
             new_gap_tonnes = 262.8\<rparr>"
    by (simp add: simulated_calculations_def scenario_1_def controls_2_def
        combined_simulation_2 getitem_def truediv_def Let_def)
  then show ?thesis
    by (simp only: scenario_1_current and_then_Inr)
qed

section \<open>Input validation\<close>



section \<open>The zero-worker contract\<close>

text \<open>
  C2. For every total \<open>T\<close>, \<^verbatim>\<open>per_capita_emissions(T, 0)\<close> returns 0 and does not
  raise; for every worker count \<open>W > 0\<close>, \<^verbatim>\<open>per_capita_emissions(T, W)\<close> returns
  \<open>T / W\<close>.
\<close>

theorem per_capita_emissions_contract:
  "per_capita_emissions T 0 = Inr 0 \<and>
   (0 < W \<longrightarrow> per_capita_emissions T W = Inr (T / of_int W))"
  by (simp add: per_capita_emissions_def truediv_def)

theorem per_capita_emissions_contract_witness:
  "per_capita_emissions 869000 0 = Inr 0 \<and>
   (0::int) < 500 \<and> per_capita_emissions 869000 500 = Inr 1738"
  using per_capita_emissions_contract [of 869000 500] by simp

section \<open>Land required for neutrality\<close>

text \<open>
  C3. \<^verbatim>\<open>land_required_for_neutrality(gap)\<close> returns 0 when \<open>gap \<le> 0\<close> and
  \<open>gap / 10000\<close> when \<open>gap > 0\<close>; so the result is never negative, and the function is
  continuous at \<open>gap = 0\<close>.
\<close>

theorem land_required_for_neutrality_clamp:
  "(gap \<le> 0 \<longrightarrow> land_required_for_neutrality gap = Inr 0) \<and>
   (0 < gap \<longrightarrow> land_required_for_neutrality gap = Inr (gap / 10000)) \<and>
   (\<exists>hectares. land_required_for_neutrality gap = Inr hectares \<and> 0 \<le> hectares) \<and>
   isCont (\<lambda>g. projr (land_required_for_neutrality g)) 0"
proof -
  have neg: "gap \<le> 0 \<longrightarrow> land_required_for_neutrality gap = Inr 0"
    by (simp add: land_required_value)
  have pos: "0 < gap \<longrightarrow> land_required_for_neutrality gap = Inr (gap / 10000)"
    by (simp add: land_required_value)
  have nonneg: "\<exists>hectares. land_required_for_neutrality gap = Inr hectares \<and> 0 \<le> hectares"
    by (intro exI [of _ "max 0 gap / 10000"]) (simp add: land_required_value)
  have "(\<lambda>g. projr (land_required_for_neutrality g)) = (\<lambda>g. max 0 g / 10000)"
    by (simp add: land_required_value)
  moreover have "isCont (\<lambda>g::real. max 0 g / 10000) 0"
    by (intro continuous_intros) simp
  ultimately have cont: "isCont (\<lambda>g. projr (land_required_for_neutrality g)) 0"
    by simp
  from neg pos nonneg cont show ?thesis by blast
qed

theorem land_required_for_neutrality_clamp_witness:
  "(-5::real) \<le> 0 \<and> land_required_for_neutrality (-5) = Inr 0 \<and>
   (0::real) < 747000 \<and> land_required_for_neutrality 747000 = Inr 74.7"
  using land_required_for_neutrality_clamp [of "-5"]
    land_required_for_neutrality_clamp [of 747000]
  by simp

section \<open>Carbon credits\<close>

text \<open>
  C4. \<^verbatim>\<open>calculate_carbon_credits(g)\<close> returns 0 when \<open>g \<le> 0\<close> and \<open>g * 15\<close>, the gap
  times the carbon credit price, when \<open>g > 0\<close>.
\<close>

theorem calculate_carbon_credits_cases:
  "(g \<le> 0 \<longrightarrow> calculate_carbon_credits g = Inr 0) \<and>
   (0 < g \<longrightarrow> calculate_carbon_credits g = Inr (g * 15))"
  by (simp add: calculate_carbon_credits_def emission_factors)

theorem calculate_carbon_credits_cases_witness:
  "(-3::real) \<le> 0 \<and> calculate_carbon_credits (-3) = Inr 0 \<and>
   (0::real) < 262.8 \<and> calculate_carbon_credits 262.8 = Inr 3942"
  using calculate_carbon_credits_cases [of "-3"] calculate_carbon_credits_cases [of "262.8"]
  by simp

section \<open>The renewable-energy lever\<close>




section \<open>The electrification lever\<close>



section \<open>Area absorption and land requirement are inverse\<close>



section \<open>The scenarios of the specification\<close>

text \<open>
  C6. On scenario 1 (diesel 50000 L, electricity 500000 kWh, coal 100000 t, distance
  50 km, 500 workers, 10 ha, 1000 trees) the calculators return: diesel 134000 kg,
  electricity 410000 kg, excavation 15000 kg, transport 310000 kg, total 869000 kg,
  absorption 122000 kg, gap 747 t, 1738 kg per person, and 74.7 ha for a gap of
  747000 kg. The last conjunct is the whole current-state section of \<^verbatim>\<open>app.py\<close>
  on these inputs, the gap in tonnes among its variables.
\<close>

theorem scenario_example_1:
  "diesel_emissions 50000 = Inr 134000 \<and>
   electricity_emissions 500000 = Inr 410000 \<and>
   excavation_emissions 100000 = Inr 15000 \<and>
   transportation_emissions 100000 50 = Inr 310000 \<and>
   total_emissions 134000 410000 15000 310000 = Inr 869000 \<and>
   total_absorption 10 1000 = Inr 122000 \<and>
   per_capita_emissions 869000 500 = Inr 1738 \<and>
   land_required_for_neutrality 747000 = Inr 74.7 \<and>
   current_calculations scenario_1 =
     Inr \<lparr>diesel_em = 134000, electricity_em = 410000, excavation_em = 15000,
          transport_em = 310000, total_em = 869000, per_capita_em = 1738,
          total_absorption_kg = 122000, total_em_tonnes = 869,
          total_absorption_tonnes = 122, emission_gap_kg = 747000,
          emission_gap_tonnes = 747, land_needed = 74.7\<rparr>"
proof -
  have calls:
    "diesel_emissions 50000 = Inr 134000"
    "electricity_emissions 500000 = Inr 410000"
    "excavation_emissions 100000 = Inr 15000"
    "transportation_emissions 100000 50 = Inr 310000"
    "total_emissions 134000 410000 15000 310000 = Inr 869000"
    by (simp_all add: diesel_emissions_def electricity_emissions_def excavation_emissions_def
        transportation_emissions_def total_emissions_def emission_factors)
  have sinks: "total_absorption 10 1000 = Inr 122000"
    by (simp add: total_absorption_def carbon_absorption_from_area_def
        carbon_absorption_from_trees_def emission_factors)
  have derived:
    "per_capita_emissions 869000 500 = Inr 1738"
    "land_required_for_neutrality 747000 = Inr 74.7"
    by (simp_all add: per_capita_emissions_def truediv_def land_required_value)
  from calls sinks derived scenario_1_current show ?thesis
    by (intro conjI)
qed

text \<open>
  C7. From scenario 1, \<^verbatim>\<open>combined_simulation\<close> with 30 % electrification, 50 %
  renewables, 20 added hectares and 2000 added trees returns diesel 93800 kg,
  electricity 210000 kg (grid 205000 kg and renewable 5000 kg) and absorption
  366000 kg; with the unchanged excavation and transport emissions re-added, as the
  simulation section of \<^verbatim>\<open>app.py\<close> does, the new total is 628800 kg and the new gap
  262.8 t, and \<^verbatim>\<open>calculate_carbon_credits(262.8)\<close> is 3942 USD.
\<close>

theorem scenario_example_2:
  "combined_simulation 134000 500000 122000 30 50 20 2000 =
     Inr [''diesel_emissions'' \<mapsto> 93800,
          ''electricity_emissions'' \<mapsto> 210000,
          ''total_absorption'' \<mapsto> 366000] \<and>
   simulate_renewable_energy 500000 50 =
     Inr [''total'' \<mapsto> 210000, ''grid'' \<mapsto> 205000, ''renewable'' \<mapsto> 5000] \<and>
   and_then (current_calculations scenario_1)
     (\<lambda>cur. simulated_calculations scenario_1 cur controls_2) =
     Inr \<lparr>new_diesel_em = 93800, new_electricity_em = 210000,
          new_total_em = 628800, new_absorption = 366000,
          new_total_em_tonnes = 628.8, new_absorption_tonnes = 366,
          new_gap_tonnes = 262.8\<rparr> \<and>
   calculate_carbon_credits 262.8 = Inr 3942"
proof -
  have renewable: "simulate_renewable_energy 500000 50 =
     Inr [''total'' \<mapsto> 210000, ''grid'' \<mapsto> 205000, ''renewable'' \<mapsto> 5000]"
    by (simp add: simulate_renewable_energy_value)
  have credits: "calculate_carbon_credits 262.8 = Inr 3942"
    by (simp add: calculate_carbon_credits_def emission_factors)
  from combined_simulation_2 renewable scenario_2_simulated credits show ?thesis
    by (intro conjI)
qed

end
